theory Spec2Isabelle
  imports Main "HOL-Library.AList"
begin

section \<open>Analytics event translation (src/shared/analytics/analytics.background.ts)\<close>

text \<open>
  The file registers one handler per domain event on the event emitter. Each handler
  builds an object literal, hands it to the parameter builder and forwards the result
  to the metrics sink. The embedding below keeps that shape: JavaScript values and
  object literals, the collaborators the file imports as fields of an environment, the
  effects of a handler (calls of the sink, callbacks handed to the idle scheduler) as
  fields of a world that is passed through, and a thrown exception as the left
  injection of a sum.
\<close>

subsection \<open>JavaScript values and object literals\<close>

text \<open>
  \<open>Inherited k\<close> stands for the function or object that a property read finds under
  the name \<open>k\<close> on \<open>Object.prototype\<close>; all that matters of it here is that it is
  neither \<open>undefined\<close> nor \<open>null\<close>.
\<close>

datatype jsval =
    Undefined
  | Null
  | Bool bool
  | Num int
  | Str string
  | Arr "jsval list"
  | Obj "(string \<times> jsval) list"
  | Inherited string

type_synonym obj = "(string \<times> jsval) list"

text \<open>
  An object literal \<open>{k1: v1, ..., ...rest}\<close> is evaluated left to right; a key that
  occurs again takes the later value and keeps its first position.
\<close>

definition object :: "(string \<times> jsval) list \<Rightarrow> obj" where
  "object props = foldl (\<lambda>acc (k, v). AList.update k v acc) [] props"

text \<open>The names every ordinary object inherits from \<open>Object.prototype\<close>.\<close>

definition Object_prototype :: "string list" where
  "Object_prototype =
     [''constructor'', ''hasOwnProperty'', ''isPrototypeOf'', ''propertyIsEnumerable'',
      ''toLocaleString'', ''toString'', ''valueOf'', ''__proto__'',
      ''__defineGetter__'', ''__defineSetter__'', ''__lookupGetter__'', ''__lookupSetter__'']"

text \<open>
  A property read \<open>o[k]\<close> (or \<open>o.k\<close>) on an ordinary object: the own property, else the
  inherited one, else \<open>undefined\<close>.
\<close>

definition getprop :: "obj \<Rightarrow> string \<Rightarrow> jsval" where
  "getprop ob k =
     (case map_of ob k of
        Some v \<Rightarrow> v
      | None \<Rightarrow> if k \<in> set Object_prototype then Inherited k else Undefined)"

fun truthy :: "jsval \<Rightarrow> bool" where
  "truthy Undefined = False"
| "truthy Null = False"
| "truthy (Bool b) = b"
| "truthy (Num n) = (n \<noteq> 0)"
| "truthy (Str s) = (s \<noteq> [])"
| "truthy (Arr xs) = True"
| "truthy (Obj ob) = True"
| "truthy (Inherited k) = True"

text \<open>\<open>a || b\<close> and \<open>a ?? b\<close>.\<close>

definition or_else :: "jsval \<Rightarrow> jsval \<Rightarrow> jsval" where
  "or_else a b = (if truthy a then a else b)"

definition nullish_else :: "jsval \<Rightarrow> jsval \<Rightarrow> jsval" where
  "nullish_else a b = (if a = Undefined \<or> a = Null then b else a)"

text \<open>An optional string read as a value: \<open>undefined\<close> when it is missing.\<close>

fun opt_str :: "string option \<Rightarrow> jsval" where
  "opt_str None = Undefined"
| "opt_str (Some s) = Str s"

subsection \<open>Errors\<close>

text \<open>
  \<open>TypeError\<close> is what \<open>new URL(s)\<close> throws on a string it cannot parse and what a
  property read on \<open>undefined\<close> throws; \<open>Thrown\<close> is an exception raised inside a
  collaborator.
\<close>

datatype error = TypeError string | Thrown string

subsection \<open>Event payloads\<close>

record url =
  origin :: string
  pathname :: string

record transaction =
  chainId :: jsval
  from' :: string
  gasLimit :: "int option"
  hash :: string

record asset =
  symbol :: string

record network =
  external_id :: jsval
  rpc_url_internal :: jsval
  name :: jsval
  native_asset :: "asset option"
  explorer_home_url :: jsval

datatype user = User (id_user: string)

text \<open>
  The events of the emitter this file listens to, with their payloads:
  \<open>dappConnection {origin, address}\<close>, \<open>screenView {address?, pathname, previous,
  screenSize}\<close>, \<open>daylightAction {event_name, ...}\<close>, \<open>transactionSent {transaction,
  initiator, feeValueCommon, addressAction, quote}\<close>, \<open>typedDataSigned {typedData,
  initiator, address}\<close>, \<open>messageSigned {message, initiator, address}\<close>,
  \<open>addEthereumChain {values, origin}\<close> and \<open>globalPreferencesChange (state,
  prevState)\<close>.
\<close>

datatype DomainEvent =
    dappConnection string string
  | screenView "string option" string jsval jsval
  | daylightAction obj
  | transactionSent transaction string jsval jsval jsval
  | typedDataSigned jsval string string
  | messageSigned jsval string string
  | addEthereumChain "network list" string
  | globalPreferencesChange jsval jsval

subsection \<open>Collaborators\<close>

text \<open>
  Everything the file imports or reads from the host, none of it defined in this file.
  \<open>URL s = None\<close> is the constructor throwing; \<open>getWalletGroupByAddressSync\<close>
  (reached through \<open>account.getCurrentWallet()\<close>) may throw or return a group, which
  may be \<open>null\<close>; \<open>networksStore_load\<close> is \<open>await networksStore.load()\<close>, which
  may reject or give the networks, kept as their \<open>getChainById\<close> followed by
  \<open>toString\<close>: the string form of the network found for a chain id, if any;
  \<open>hexValue\<close> is \<open>ethers.utils.hexValue\<close>, which throws on a chain id it cannot
  render (negative, fractional, unsafe, missing); \<open>toString\<close> renders the gas limit.
  The other collaborators are taken to return a value on every argument.
\<close>

record env =
  INTERNAL_ORIGIN :: string
  location_origin :: string
  URL :: "string \<Rightarrow> url option"
  getWalletGroupByAddressSync :: "string \<Rightarrow> error + jsval"
  getProviderNameFromGroup :: "jsval \<Rightarrow> jsval"
  getProviderForMetabase :: "jsval \<Rightarrow> jsval"
  networksStore_load :: "error + (string \<Rightarrow> string option)"
  hexValue :: "jsval \<Rightarrow> error + string"
  toString :: "int \<Rightarrow> string"
  addressActionToAnalytics :: "jsval \<Rightarrow> jsval \<Rightarrow> obj"
  getWalletNameFlagsChange :: "jsval \<Rightarrow> jsval \<Rightarrow> string list \<times> string list"

text \<open>
  The parameter builder of \<open>./analytics\<close> is not part of this file. Its result is kept
  as the term \<open>createBaseParams ob\<close>: the builder applied to the object literal the
  handler wrote.
\<close>

datatype params = createBaseParams (fields_of: obj)

text \<open>The callback a handler hands to \<open>onIdle\<close>, with the values it closes over.\<close>

datatype callback = globalPreferencesChange_callback jsval jsval

text \<open>
  The world a handler acts on: the account's current user, the calls of
  \<open>sendToMetabase\<close> made so far (oldest first) and the callbacks waiting for idle time.
\<close>

record world =
  user :: "user option"
  sent :: "(string \<times> params) list"
  idle :: "callback list"

definition sendToMetabase :: "string \<Rightarrow> params \<Rightarrow> world \<Rightarrow> world" where
  "sendToMetabase event ps w = w\<lparr>sent := sent w @ [(event, ps)]\<rparr>"

definition onIdle :: "callback \<Rightarrow> world \<Rightarrow> world" where
  "onIdle cb w = w\<lparr>idle := idle w @ [cb]\<rparr>"

subsection \<open>The handlers\<close>

definition queryWalletProvider :: "env \<Rightarrow> string \<Rightarrow> error + jsval" where
  "queryWalletProvider e address =
     (case getWalletGroupByAddressSync e address of
        Inl err \<Rightarrow> Inl err
      | Inr group' \<Rightarrow> Inr (getProviderNameFromGroup e group'))"

definition getProvider :: "env \<Rightarrow> string \<Rightarrow> error + jsval" where
  "getProvider e address =
     (case queryWalletProvider e address of
        Inl err \<Rightarrow> Inl err
      | Inr provider \<Rightarrow> Inr (getProviderForMetabase e provider))"

definition getUserId :: "world \<Rightarrow> jsval" where
  "getUserId w = (case user w of None \<Rightarrow> Undefined | Some u \<Rightarrow> Str (id_user u))"

definition createParams :: "world \<Rightarrow> (string \<times> jsval) list \<Rightarrow> params" where
  "createParams w ps = createBaseParams (object (ps @ [(''userId'', getUserId w)]))"

definition on_dappConnection :: "env \<Rightarrow> string \<Rightarrow> string \<Rightarrow> world \<Rightarrow> error + world" where
  "on_dappConnection e origin' address w =
     (case getProvider e address of
        Inl err \<Rightarrow> Inl err
      | Inr provider \<Rightarrow>
          Inr (sendToMetabase ''dapp_connection''
                (createBaseParams (object
                  [(''request_name'', Str ''dapp_connection''),
                   (''dapp_domain'', Str origin'),
                   (''wallet_address'', Str address),
                   (''wallet_provider'', provider)])) w))"

definition on_screenView ::
  "env \<Rightarrow> string option \<Rightarrow> string \<Rightarrow> jsval \<Rightarrow> jsval \<Rightarrow> world \<Rightarrow> error + world" where
  "on_screenView e address pathname' previous screenSize w =
     (case (case address of
              None \<Rightarrow> Inr Null
            | Some a \<Rightarrow> if truthy (Str a) then getProvider e a else Inr Null) of
        Inl err \<Rightarrow> Inl err
      | Inr provider \<Rightarrow>
          Inr (sendToMetabase ''screen_view''
                (createBaseParams (object
                  [(''request_name'', Str ''screen_view''),
                   (''wallet_address'', opt_str address),
                   (''wallet_provider'', provider),
                   (''screen_name'', Str pathname'),
                   (''previous_screen_name'', previous),
                   (''screen_size'', screenSize)])) w))"

definition on_daylightAction :: "obj \<Rightarrow> world \<Rightarrow> error + world" where
  "on_daylightAction payload w =
     (let event_name = getprop payload ''event_name'';
          data = AList.delete ''event_name'' payload
      in Inr (sendToMetabase ''daylight_action''
               (createBaseParams (object
                 ([(''request_name'', Str ''daylight_action''),
                   (''wallet_address'', getprop data ''address''),
                   (''event_name'', event_name)] @ data))) w))"

text \<open>
  The handler of \<open>transactionSent\<close> is an \<open>async\<close> function: \<open>Inl\<close> is its promise
  rejecting, with nothing sent. The steps keep the order of the source: the URL, the
  networks, the chain id and its label, then the properties of the literal from top to
  bottom.
\<close>

definition on_transactionSent ::
  "env \<Rightarrow> transaction \<Rightarrow> string \<Rightarrow> jsval \<Rightarrow> jsval \<Rightarrow> jsval \<Rightarrow> world \<Rightarrow> error + world" where
  "on_transactionSent e tx initiator feeValueCommon addressAction quote w =
     (case URL e initiator of
        None \<Rightarrow> Inl (TypeError ''Invalid URL'')
      | Some initiatorURL \<Rightarrow>
          (case networksStore_load e of
             Inl err \<Rightarrow> Inl err
           | Inr getChainById \<Rightarrow>
          (case hexValue e (chainId tx) of
             Inl err \<Rightarrow> Inl err
           | Inr chainId' \<Rightarrow>
          (let chain = or_else (opt_str (getChainById chainId')) (Str chainId')
           in case getProvider e (from' tx) of
                Inl err \<Rightarrow> Inl err
              | Inr provider \<Rightarrow>
                  (case gasLimit tx of
                     None \<Rightarrow> Inl (TypeError ''Cannot read properties of undefined'')
                   | Some gas \<Rightarrow>
                       Inr (sendToMetabase ''signed_transaction''
                             (createBaseParams (object
                               ([(''request_name'', Str ''signed_transaction''),
                                 (''screen_name'',
                                    if origin initiatorURL = initiator
                                    then Str ''Transaction Request''
                                    else Str (pathname initiatorURL)),
                                 (''wallet_address'', Str (from' tx)),
                                 (''wallet_provider'', provider),
                                 (''context'',
                                    if location_origin e = origin initiatorURL
                                    then Str ''Extension'' else Str ''External Dapp''),
                                 (''type'', Str ''sign''),
                                 (''dapp_domain'',
                                    if location_origin e = origin initiatorURL
                                    then Null else Str (origin initiatorURL)),
                                 (''chain'', chain),
                                 (''gas'', Str (toString e gas)),
                                 (''hash'', Str (hash tx)),
                                 (''asset_amount_sent'', Arr []),
                                 (''gas_price'', Null),
                                 (''network_fee'', Null),
                                 (''network_fee_value'', feeValueCommon)]
                                @ addressActionToAnalytics e addressAction quote))) w))))))"

definition eventToMethod :: obj where
  "eventToMethod =
     [(''typedDataSigned'', Str ''_signTypedData''),
      (''messageSigned'', Str ''signMessage'')]"

definition handleSign :: "env \<Rightarrow> string \<Rightarrow> string \<Rightarrow> string \<Rightarrow> world \<Rightarrow> error + world" where
  "handleSign e type initiator address w =
     (if initiator = INTERNAL_ORIGIN e then Inr w
      else case URL e initiator of
        None \<Rightarrow> Inl (TypeError ''Invalid URL'')
      | Some initiatorURL \<Rightarrow>
          (case getProvider e address of
             Inl err \<Rightarrow> Inl err
           | Inr provider \<Rightarrow>
               Inr (sendToMetabase ''signed_message''
                     (createBaseParams (object
                       [(''request_name'', Str ''signed_message''),
                        (''type'', nullish_else (getprop eventToMethod type) (Str ''unexpected type'')),
                        (''wallet_address'', Str address),
                        (''address'', Str address),
                        (''wallet_provider'', provider),
                        (''context'',
                           if location_origin e = origin initiatorURL
                           then Str ''Extension'' else Str ''External Dapp''),
                        (''dapp_domain'',
                           if location_origin e = origin initiatorURL
                           then Null else Str (origin initiatorURL))])) w)))"

text \<open>
  \<open>({ values: [network], origin })\<close> binds \<open>network\<close> to the first element of
  \<open>values\<close>; on an empty array it is \<open>undefined\<close> and the first property read throws.
\<close>

definition on_addEthereumChain :: "network list \<Rightarrow> string \<Rightarrow> world \<Rightarrow> error + world" where
  "on_addEthereumChain values origin' w =
     (case values of
        [] \<Rightarrow> Inl (TypeError ''Cannot read properties of undefined'')
      | network # _ \<Rightarrow>
          Inr (sendToMetabase ''add_custom_evm''
                (createParams w
                  [(''request_name'', Str ''add_custom_evm''),
                   (''source'', Str origin'),
                   (''network_external_id'', external_id network),
                   (''network_rpc_url_internal'', rpc_url_internal network),
                   (''network_name'', name network),
                   (''network_native_asset_symbol'',
                      or_else (opt_str (map_option symbol (native_asset network))) Null),
                   (''network_explorer_home_url'', explorer_home_url network)]) w))"

definition on_globalPreferencesChange :: "jsval \<Rightarrow> jsval \<Rightarrow> world \<Rightarrow> error + world" where
  "on_globalPreferencesChange state prevState w =
     Inr (onIdle (globalPreferencesChange_callback state prevState) w)"

text \<open>The body of one \<open>forEach\<close> of the deferred callback, for one key.\<close>

definition send_metamask_mode :: "bool \<Rightarrow> world \<Rightarrow> string \<Rightarrow> world" where
  "send_metamask_mode enabled w key =
     sendToMetabase ''metamask_mode''
       (createParams w
          [(''request_name'', Str ''metamask_mode''),
           (''enabled'', Bool enabled),
           (''dapp_domain'', Str key)]) w"

fun run_callback :: "env \<Rightarrow> world \<Rightarrow> callback \<Rightarrow> world" where
  "run_callback e w (globalPreferencesChange_callback state prevState) =
     (case getWalletNameFlagsChange e state prevState of
        (newlyEnabled, newlyDisabled) \<Rightarrow>
          foldl (send_metamask_mode False)
            (foldl (send_metamask_mode True) w newlyEnabled) newlyDisabled)"

text \<open>The host becoming idle: the waiting callbacks run, in the order they were handed in.\<close>

definition run_idle :: "env \<Rightarrow> world \<Rightarrow> world" where
  "run_idle e w = foldl (run_callback e) (w\<lparr>idle := []\<rparr>) (idle w)"

text \<open>The emitter delivering an event to the handler registered for it.\<close>

fun emit :: "env \<Rightarrow> DomainEvent \<Rightarrow> world \<Rightarrow> error + world" where
  "emit e (dappConnection origin' address) w = on_dappConnection e origin' address w"
| "emit e (screenView address pathname' previous screenSize) w =
     on_screenView e address pathname' previous screenSize w"
| "emit e (daylightAction payload) w = on_daylightAction payload w"
| "emit e (transactionSent tx initiator feeValueCommon addressAction quote) w =
     on_transactionSent e tx initiator feeValueCommon addressAction quote w"
| "emit e (typedDataSigned typedData initiator address) w =
     handleSign e ''typedDataSigned'' initiator address w"
| "emit e (messageSigned message initiator address) w =
     handleSign e ''messageSigned'' initiator address w"
| "emit e (addEthereumChain values origin') w = on_addEthereumChain values origin' w"
| "emit e (globalPreferencesChange state prevState) w =
     on_globalPreferencesChange state prevState w"


subsection \<open>What a translation sends\<close>

text \<open>
  The records an event gives rise to: what the sink has received beyond what it had,
  after the handler has returned and the host has been idle once. A handler that throws
  sends nothing.
\<close>

definition records_of :: "env \<Rightarrow> DomainEvent \<Rightarrow> world \<Rightarrow> (string \<times> params) list" where
  "records_of e ev w =
     (case emit e ev w of
        Inl err \<Rightarrow> []
      | Inr w' \<Rightarrow> drop (length (sent w)) (sent (run_idle e w')))"

text \<open>The field \<open>k\<close> of the literal a record was built from, if the literal has it.\<close>

definition field_of :: "string \<Rightarrow> params \<Rightarrow> jsval option" where
  "field_of k p = map_of (fields_of p) k"

text \<open>The name each handler passes to \<open>sendToMetabase\<close>.\<close>

fun request_name_of :: "DomainEvent \<Rightarrow> string" where
  "request_name_of (dappConnection origin' address) = ''dapp_connection''"
| "request_name_of (screenView address pathname' previous screenSize) = ''screen_view''"
| "request_name_of (daylightAction payload) = ''daylight_action''"
| "request_name_of (transactionSent tx initiator feeValueCommon addressAction quote) =
     ''signed_transaction''"
| "request_name_of (typedDataSigned typedData initiator address) = ''signed_message''"
| "request_name_of (messageSigned message initiator address) = ''signed_message''"
| "request_name_of (addEthereumChain values origin') = ''add_custom_evm''"
| "request_name_of (globalPreferencesChange state prevState) = ''metamask_mode''"

text \<open>The number of records of an event whose handler returns.\<close>

fun expected_count :: "env \<Rightarrow> DomainEvent \<Rightarrow> nat" where
  "expected_count e (typedDataSigned typedData initiator address) =
     (if initiator = INTERNAL_ORIGIN e then 0 else 1)"
| "expected_count e (messageSigned message initiator address) =
     (if initiator = INTERNAL_ORIGIN e then 0 else 1)"
| "expected_count e (globalPreferencesChange state prevState) =
     length (fst (getWalletNameFlagsChange e state prevState)) +
     length (snd (getWalletNameFlagsChange e state prevState))"
| "expected_count e ev = 1"

text \<open>
  The object a handler spreads into its literal after the named properties: the rest of
  the \<open>daylightAction\<close> payload, the result of \<open>addressActionToAnalytics\<close>.
\<close>

fun spread_part :: "env \<Rightarrow> DomainEvent \<Rightarrow> obj" where
  "spread_part e (daylightAction payload) = payload"
| "spread_part e (transactionSent tx initiator feeValueCommon addressAction quote) =
     addressActionToAnalytics e addressAction quote"
| "spread_part e ev = []"

fun initiator_of :: "DomainEvent \<Rightarrow> string option" where
  "initiator_of (transactionSent tx initiator feeValueCommon addressAction quote) = Some initiator"
| "initiator_of (typedDataSigned typedData initiator address) = Some initiator"
| "initiator_of (messageSigned message initiator address) = Some initiator"
| "initiator_of ev = None"

text \<open>A signing event whose initiator is the internal origin.\<close>

fun suppressed :: "env \<Rightarrow> DomainEvent \<Rightarrow> bool" where
  "suppressed e (typedDataSigned typedData initiator address) = (initiator = INTERNAL_ORIGIN e)"
| "suppressed e (messageSigned message initiator address) = (initiator = INTERNAL_ORIGIN e)"
| "suppressed e ev = False"

text \<open>The address a handler asks the wallet provider of, if it asks.\<close>

fun lookup_address :: "env \<Rightarrow> DomainEvent \<Rightarrow> string option" where
  "lookup_address e (dappConnection origin' address) = Some address"
| "lookup_address e (screenView address pathname' previous screenSize) =
     (case address of None \<Rightarrow> None | Some a \<Rightarrow> if a = [] then None else Some a)"
| "lookup_address e (transactionSent tx initiator feeValueCommon addressAction quote) =
     Some (from' tx)"
| "lookup_address e (typedDataSigned typedData initiator address) =
     (if initiator = INTERNAL_ORIGIN e then None else Some address)"
| "lookup_address e (messageSigned message initiator address) =
     (if initiator = INTERNAL_ORIGIN e then None else Some address)"
| "lookup_address e ev = None"

text \<open>
  The conditions under which a handler does not return: the initiator is not a URL, the
  networks fail to load, \<open>hexValue\<close> throws on the chain id, the wallet lookup
  throws, the transaction has no gas limit, the list of networks is empty.
\<close>

fun aborts :: "env \<Rightarrow> DomainEvent \<Rightarrow> bool" where
  "aborts e (transactionSent tx initiator feeValueCommon addressAction quote) =
     (URL e initiator = None \<or> isl (networksStore_load e) \<or>
      isl (hexValue e (chainId tx)) \<or>
      isl (getWalletGroupByAddressSync e (from' tx)) \<or> gasLimit tx = None)"
| "aborts e (typedDataSigned typedData initiator address) =
     (initiator \<noteq> INTERNAL_ORIGIN e \<and>
      (URL e initiator = None \<or> isl (getWalletGroupByAddressSync e address)))"
| "aborts e (messageSigned message initiator address) =
     (initiator \<noteq> INTERNAL_ORIGIN e \<and>
      (URL e initiator = None \<or> isl (getWalletGroupByAddressSync e address)))"
| "aborts e (addEthereumChain values origin') = (values = [])"
| "aborts e (dappConnection origin' address) = isl (getWalletGroupByAddressSync e address)"
| "aborts e (screenView address pathname' previous screenSize) =
     (case address of
        None \<Rightarrow> False
      | Some a \<Rightarrow> a \<noteq> [] \<and> isl (getWalletGroupByAddressSync e a))"
| "aborts e ev = False"

subsection \<open>A sample environment\<close>

text \<open>
  Concrete collaborators for the closed examples below. \<open>URL_sample\<close> gives what the
  URL constructor gives on the strings the examples use; \<open>''not a url''\<close> has no
  scheme, and the constructor throws on it. \<open>hexValue_sample\<close> gives what
  \<open>ethers.utils.hexValue\<close> gives on the chain ids the examples use: it renders 1 and
  137 and throws on a negative number and on \<open>undefined\<close>.
\<close>

definition URL_sample :: "string \<Rightarrow> url option" where
  "URL_sample s =
     (if s = ''https://app.example''
        then Some \<lparr>origin = ''https://app.example'', pathname = ''/''\<rparr>
      else if s = ''https://app.example/swap''
        then Some \<lparr>origin = ''https://app.example'', pathname = ''/swap''\<rparr>
      else if s = ''chrome-extension://wallet/popup.html''
        then Some \<lparr>origin = ''chrome-extension://wallet'', pathname = ''/popup.html''\<rparr>
      else if s = ''chrome-extension://wallet''
        then Some \<lparr>origin = ''chrome-extension://wallet'', pathname = ''/''\<rparr>
      else None)"

definition hexValue_sample :: "jsval \<Rightarrow> error + string" where
  "hexValue_sample v =
     (if v = Num 1 then Inr ''0x1''
      else if v = Num 137 then Inr ''0x89''
      else Inl (Thrown ''invalid hexlify value''))"

definition env0 :: env where
  "env0 = \<lparr>
     INTERNAL_ORIGIN = ''chrome-extension://wallet'',
     location_origin = ''chrome-extension://wallet'',
     URL = URL_sample,
     getWalletGroupByAddressSync =
       (\<lambda>address. if address = ''0xabc'' then Inr (Obj [(''id'', Str ''group-1'')]) else Inr Null),
     getProviderNameFromGroup = (\<lambda>g. if g = Null then Null else Str ''zerion-extension''),
     getProviderForMetabase = (\<lambda>provider. provider),
     networksStore_load = Inr (\<lambda>c. if c = ''0x1'' then Some ''ethereum'' else None),
     hexValue = hexValue_sample,
     toString = (\<lambda>n. if n = 21000 then ''21000'' else ''0''),
     addressActionToAnalytics = (\<lambda>addressAction quote. [(''action_type'', Str ''Send'')]),
     getWalletNameFlagsChange =
       (\<lambda>state prevState. ([''https://a.example''], [''https://b.example'', ''https://c.example'']))
   \<rparr>"

text \<open>The same environment with a wallet whose group lookup throws.\<close>

definition env_unloaded :: env where
  "env_unloaded =
     env0\<lparr>getWalletGroupByAddressSync := (\<lambda>address. Inl (Thrown ''wallet state not loaded''))\<rparr>"

definition world0 :: world where
  "world0 = \<lparr>user = Some (User ''user-1''), sent = [], idle = []\<rparr>"

definition tx0 :: transaction where
  "tx0 = \<lparr>chainId = Num 1, from' = ''0xabc'', gasLimit = Some 21000, hash = ''0xhash''\<rparr>"

definition net_a :: network where
  "net_a = \<lparr>external_id = Str ''0x89'', rpc_url_internal = Str ''https://rpc.a.example'',
     name = Str ''Net A'', native_asset = Some \<lparr>symbol = ''AAA''\<rparr>,
     explorer_home_url = Str ''https://scan.a.example''\<rparr>"

definition net_b :: network where
  "net_b = \<lparr>external_id = Str ''0xa4b1'', rpc_url_internal = Str ''https://rpc.b.example'',
     name = Str ''Net B'', native_asset = None, explorer_home_url = Null\<rparr>"

section \<open>Properties\<close>

subsection \<open>Auxiliary facts\<close>

lemmas env0_simps = env0_def env_unloaded_def world0_def URL_sample_def hexValue_sample_def
  tx0_def net_a_def net_b_def

lemmas handler_defs = on_dappConnection_def on_screenView_def on_daylightAction_def
  on_transactionSent_def handleSign_def on_addEthereumChain_def on_globalPreferencesChange_def
  getProvider_def queryWalletProvider_def sendToMetabase_def onIdle_def

text \<open>Reading a literal: the last property written under a key is the one found.\<close>

lemma map_of_foldl_update:
  "map_of (foldl (\<lambda>acc (k, v). AList.update k v acc) acc ps) = map_of acc ++ map_of (rev ps)"
  by (induction ps arbitrary: acc)
    (auto simp: update_conv' map_add_upd_left fun_eq_iff map_add_def split: option.splits)

lemma map_of_object: "map_of (object ps) = map_of (rev ps)"
  by (simp add: object_def map_of_foldl_update)

lemma map_of_rev_None: "map_of (rev ps) k = None \<longleftrightarrow> map_of ps k = None"
  by (simp add: map_of_eq_None_iff)

lemma map_of_delete_None: "map_of ps k = None \<Longrightarrow> map_of (AList.delete k' ps) k = None"
  by (simp add: delete_conv')

lemma object_append_miss:
  "map_of ext k = None \<Longrightarrow> map_of (object (ps @ ext)) k = map_of (rev ps) k"
proof -
  assume "map_of ext k = None"
  then have "map_of (rev ext) k = None"
    by (simp add: map_of_rev_None)
  then show ?thesis
    by (simp add: map_of_object map_add_def)
qed


text \<open>The deferred callback: each \<open>forEach\<close> appends one record per key.\<close>

lemma createParams_user: "user w' = user w \<Longrightarrow> createParams w' ps = createParams w ps"
  by (simp add: createParams_def getUserId_def)

lemma foldl_send_metamask_mode:
  "user (foldl (send_metamask_mode b) w keys) = user w \<and>
   idle (foldl (send_metamask_mode b) w keys) = idle w \<and>
   sent (foldl (send_metamask_mode b) w keys) =
     sent w @ map (\<lambda>key. (''metamask_mode'',
        createParams w [(''request_name'', Str ''metamask_mode''), (''enabled'', Bool b),
          (''dapp_domain'', Str key)])) keys"
proof (induction keys arbitrary: w)
  case Nil
  show ?case by simp
next
  case (Cons key keys)
  let ?w1 = "send_metamask_mode b w key"
  have u: "user ?w1 = user w" and i: "idle ?w1 = idle w"
    and s: "sent ?w1 = sent w @ [(''metamask_mode'',
        createParams w [(''request_name'', Str ''metamask_mode''), (''enabled'', Bool b),
          (''dapp_domain'', Str key)])]"
    by (simp_all add: send_metamask_mode_def sendToMetabase_def)
  from Cons.IH [of ?w1] u i s show ?case
    by (simp add: createParams_user [OF u])
qed

lemma records_of_globalPreferencesChange:
  assumes "idle w = []"
  shows "records_of e (globalPreferencesChange state prevState) w =
     map (\<lambda>key. (''metamask_mode'', createParams w
            [(''request_name'', Str ''metamask_mode''), (''enabled'', Bool True),
             (''dapp_domain'', Str key)]))
       (fst (getWalletNameFlagsChange e state prevState)) @
     map (\<lambda>key. (''metamask_mode'', createParams w
            [(''request_name'', Str ''metamask_mode''), (''enabled'', Bool False),
             (''dapp_domain'', Str key)]))
       (snd (getWalletNameFlagsChange e state prevState))"
proof -
  obtain en dis where ch: "getWalletNameFlagsChange e state prevState = (en, dis)"
    by (cases "getWalletNameFlagsChange e state prevState")
  let ?w0 = "(onIdle (globalPreferencesChange_callback state prevState) w)\<lparr>idle := []\<rparr>"
  let ?w1 = "foldl (send_metamask_mode True) ?w0 en"
  have u0: "user ?w0 = user w" and s0: "sent ?w0 = sent w"
    by (simp_all add: onIdle_def)
  have u1: "user ?w1 = user w"
    using foldl_send_metamask_mode [of True ?w0 en] u0 by simp
  have "sent (foldl (send_metamask_mode False) ?w1 dis) =
        sent w @
        map (\<lambda>key. (''metamask_mode'', createParams w
            [(''request_name'', Str ''metamask_mode''), (''enabled'', Bool True),
             (''dapp_domain'', Str key)])) en @
        map (\<lambda>key. (''metamask_mode'', createParams w
            [(''request_name'', Str ''metamask_mode''), (''enabled'', Bool False),
             (''dapp_domain'', Str key)])) dis"
    using foldl_send_metamask_mode [of False ?w1 dis] foldl_send_metamask_mode [of True ?w0 en]
    by (simp add: createParams_user [OF u0] createParams_user [OF u1] s0)
  then show ?thesis
    using assms ch
    by (simp add: records_of_def on_globalPreferencesChange_def run_idle_def onIdle_def)
qed

subsection \<open>Record names and record counts\<close>

text \<open>
  Claim C1, as the code has it. Take an event whose handler returns and whose spread
  part carries no \<open>request_name\<close> of its own. Every record the event gives rise to
  (for \<open>globalPreferencesChange\<close>: once the deferred callback has run) is sent under
  the fixed name of the variant and carries that name as \<open>request_name\<close>. There is
  one record for \<open>dappConnection\<close>, \<open>screenView\<close>, \<open>daylightAction\<close>,
  \<open>transactionSent\<close> and \<open>addEthereumChain\<close>, none or one for a signing event
  (none from the internal origin), and one per changed key for
  \<open>globalPreferencesChange\<close>. The one record of \<open>addEthereumChain\<close> is built from
  the first network of \<open>values\<close>, whatever follows it in the list: its \<open>source\<close> is
  the event's origin and its network fields are the external id, the internal RPC URL,
  the name, the symbol of the native asset (\<open>null\<close> without one) and the explorer URL
  of that first network.
\<close>

theorem translation_request_name:
  assumes ok: "emit e ev w = Inr w'" and idle: "idle w = []"
    and sp: "map_of (spread_part e ev) ''request_name'' = None"
  shows "length (records_of e ev w) = expected_count e ev \<and>
         (\<forall>r \<in> set (records_of e ev w). fst r = request_name_of ev \<and>
            field_of ''request_name'' (snd r) = Some (Str (request_name_of ev))) \<and>
         (\<forall>network rest origin'. ev = addEthereumChain (network # rest) origin' \<longrightarrow>
            (\<exists>p. records_of e ev w = [(''add_custom_evm'', p)] \<and>
               field_of ''source'' p = Some (Str origin') \<and>
               field_of ''network_external_id'' p = Some (external_id network) \<and>
               field_of ''network_rpc_url_internal'' p = Some (rpc_url_internal network) \<and>
               field_of ''network_name'' p = Some (name network) \<and>
               field_of ''network_native_asset_symbol'' p =
                 Some (case native_asset network of
                         None \<Rightarrow> Null
                       | Some a \<Rightarrow> if symbol a = [] then Null else Str (symbol a)) \<and>
               field_of ''network_explorer_home_url'' p = Some (explorer_home_url network)))"
proof (cases ev)
  case (dappConnection origin' address)
  with ok idle show ?thesis
    by (auto simp: records_of_def on_dappConnection_def sendToMetabase_def run_idle_def
        field_of_def map_of_object split: sum.splits)
next
  case (screenView address pathname' previous screenSize)
  with ok idle show ?thesis
    by (auto simp: records_of_def on_screenView_def sendToMetabase_def run_idle_def
        field_of_def map_of_object split: sum.splits)
next
  case (daylightAction payload)
  with sp have "map_of (AList.delete ''event_name'' payload) ''request_name'' = None"
    by (simp add: map_of_delete_None)
  from object_append_miss [OF this, of "[a, b, c]" for a b c] daylightAction ok idle
  show ?thesis
    by (auto simp: records_of_def on_daylightAction_def sendToMetabase_def run_idle_def
        field_of_def Let_def)
next
  case (transactionSent tx initiator feeValueCommon addressAction quote)
  with sp have "map_of (addressActionToAnalytics e addressAction quote) ''request_name'' = None"
    by simp
  from object_append_miss [OF this] transactionSent ok idle show ?thesis
    by (auto simp: records_of_def on_transactionSent_def sendToMetabase_def run_idle_def
        field_of_def Let_def simp del: append.simps split: sum.splits option.splits)
next
  case (typedDataSigned typedData initiator address)
  with ok idle show ?thesis
    by (auto simp: records_of_def handleSign_def sendToMetabase_def run_idle_def
        field_of_def map_of_object split: sum.splits option.splits if_splits)
next
  case (messageSigned message initiator address)
  with ok idle show ?thesis
    by (auto simp: records_of_def handleSign_def sendToMetabase_def run_idle_def
        field_of_def map_of_object split: sum.splits option.splits if_splits)
next
  case (addEthereumChain values' origin')
  with ok idle show ?thesis
    by (auto simp: records_of_def on_addEthereumChain_def sendToMetabase_def run_idle_def
        field_of_def createParams_def map_of_object or_else_def
        split: list.splits option.splits)
next
  case (globalPreferencesChange state prevState)
  have "\<forall>network rest origin'.
      globalPreferencesChange state prevState \<noteq> addEthereumChain (network # rest) origin'"
    by simp
  then show ?thesis
    unfolding globalPreferencesChange records_of_globalPreferencesChange [OF idle]
    by (auto simp: field_of_def createParams_def map_of_object)
qed

text \<open>
  The pattern \<open>values: [network]\<close> binds the first network only: an
  \<open>addEthereumChain\<close> event with two networks gives one record, not two, and it is
  the record of the first.
\<close>

theorem chain_added_counterexample:
  "length [net_a, net_b] = 2 \<and>
   map fst (records_of env0 (addEthereumChain [net_a, net_b] ''https://dapp.example'') world0) =
     [''add_custom_evm''] \<and>
   map (field_of ''network_name'' \<circ> snd)
     (records_of env0 (addEthereumChain [net_a, net_b] ''https://dapp.example'') world0) =
     [Some (Str ''Net A'')]"
  by (simp add: records_of_def env0_simps handler_defs run_idle_def field_of_def
      createParams_def map_of_object)

theorem translation_request_name_witness:
  "(\<exists>w'. emit env0 (transactionSent tx0 ''https://app.example/swap'' Null Null Null) world0 = Inr w') \<and>
   idle world0 = [] \<and>
   map_of (spread_part env0 (transactionSent tx0 ''https://app.example/swap'' Null Null Null))
     ''request_name'' = None \<and>
   length (records_of env0 (transactionSent tx0 ''https://app.example/swap'' Null Null Null) world0) = 1 \<and>
   (\<exists>p. records_of env0 (addEthereumChain [net_b, net_a] ''https://dapp.example'') world0 =
        [(''add_custom_evm'', p)] \<and>
      field_of ''source'' p = Some (Str ''https://dapp.example'') \<and>
      field_of ''network_external_id'' p = Some (Str ''0xa4b1'') \<and>
      field_of ''network_native_asset_symbol'' p = Some Null)"
proof -
  let ?ev = "transactionSent tx0 ''https://app.example/swap'' Null Null Null"
  let ?ev' = "addEthereumChain [net_b, net_a] ''https://dapp.example''"
  obtain w' where h1: "emit env0 ?ev world0 = Inr w'"
    by (simp add: env0_simps handler_defs)
  obtain w'' where h1': "emit env0 ?ev' world0 = Inr w''"
    by (simp add: env0_simps handler_defs)
  have h2: "idle world0 = []"
    by (simp add: world0_def)
  have h3: "map_of (spread_part env0 ?ev) ''request_name'' = None"
    and h3': "map_of (spread_part env0 ?ev') ''request_name'' = None"
    by (simp_all add: env0_def)
  from translation_request_name [OF h1 h2 h3]
  have 1: "length (records_of env0 ?ev world0) = 1"
    by simp
  from translation_request_name [OF h1' h2 h3']
  have "\<exists>p. records_of env0 ?ev' world0 = [(''add_custom_evm'', p)] \<and>
      field_of ''source'' p = Some (Str ''https://dapp.example'') \<and>
      field_of ''network_external_id'' p = Some (external_id net_b) \<and>
      field_of ''network_native_asset_symbol'' p =
        Some (case native_asset net_b of
                None \<Rightarrow> Null
              | Some a \<Rightarrow> if symbol a = [] then Null else Str (symbol a))"
    by blast
  then have 2: "\<exists>p. records_of env0 ?ev' world0 = [(''add_custom_evm'', p)] \<and>
      field_of ''source'' p = Some (Str ''https://dapp.example'') \<and>
      field_of ''network_external_id'' p = Some (Str ''0xa4b1'') \<and>
      field_of ''network_native_asset_symbol'' p = Some Null"
    by (simp add: net_b_def)
  from 1 2 h1 h2 h3 show ?thesis
    by simp
qed

subsection \<open>Signing events and the internal origin\<close>

text \<open>
  Claim C2, as the code has it. A \<open>typedDataSigned\<close> or \<open>messageSigned\<close> event whose
  initiator is the internal origin leaves the world as it was: nothing is sent, nothing
  is deferred, nothing is thrown. With any other initiator, exactly one
  \<open>signed_message\<close> record is sent provided the initiator parses as a URL and the
  wallet lookup returns; when the initiator does not parse, or the lookup throws, the
  handler throws and sends nothing.
\<close>

theorem handleSign_internal_origin:
  assumes ev: "ev = typedDataSigned x initiator address \<or> ev = messageSigned x initiator address"
  shows "(initiator = INTERNAL_ORIGIN e \<longrightarrow> emit e ev w = Inr w) \<and>
         (initiator \<noteq> INTERNAL_ORIGIN e \<longrightarrow> URL e initiator \<noteq> None \<longrightarrow>
            \<not> isl (getWalletGroupByAddressSync e address) \<longrightarrow>
            (\<exists>p. emit e ev w = Inr (w\<lparr>sent := sent w @ [(''signed_message'', p)]\<rparr>))) \<and>
         (initiator \<noteq> INTERNAL_ORIGIN e \<longrightarrow>
            URL e initiator = None \<or> isl (getWalletGroupByAddressSync e address) \<longrightarrow>
            isl (emit e ev w))"
  using ev
  by (auto simp: handleSign_def getProvider_def queryWalletProvider_def sendToMetabase_def
      split: sum.splits option.splits)

text \<open>
  An initiator that differs from the internal origin and is not a URL: \<open>new URL\<close>
  throws, and no record is sent.
\<close>

theorem handleSign_internal_origin_counterexample:
  "''not a url'' \<noteq> INTERNAL_ORIGIN env0 \<and>
   emit env0 (typedDataSigned Null ''not a url'' ''0xabc'') world0 = Inl (TypeError ''Invalid URL'') \<and>
   records_of env0 (typedDataSigned Null ''not a url'' ''0xabc'') world0 = []"
  by (simp add: records_of_def env0_simps handler_defs)

theorem handleSign_internal_origin_witness:
  "emit env0 (messageSigned Null ''chrome-extension://wallet'' ''0xabc'') world0 = Inr world0 \<and>
   (\<exists>p. emit env0 (messageSigned Null ''https://app.example'' ''0xabc'') world0 =
      Inr (world0\<lparr>sent := sent world0 @ [(''signed_message'', p)]\<rparr>)) \<and>
   isl (emit env0 (messageSigned Null ''not a url'' ''0xabc'') world0)"
proof -
  have a: "''chrome-extension://wallet'' = INTERNAL_ORIGIN env0"
    and b: "''https://app.example'' \<noteq> INTERNAL_ORIGIN env0"
    and c: "URL env0 ''https://app.example'' \<noteq> None"
    and d: "\<not> isl (getWalletGroupByAddressSync env0 ''0xabc'')"
    and f: "''not a url'' \<noteq> INTERNAL_ORIGIN env0"
    and g: "URL env0 ''not a url'' = None"
    by (simp_all add: env0_simps)
  from a handleSign_internal_origin [of "messageSigned Null ''chrome-extension://wallet'' ''0xabc''"
      Null "''chrome-extension://wallet''" "''0xabc''" env0 world0]
  have 1: "emit env0 (messageSigned Null ''chrome-extension://wallet'' ''0xabc'') world0 = Inr world0"
    by blast
  from b c d handleSign_internal_origin [of "messageSigned Null ''https://app.example'' ''0xabc''"
      Null "''https://app.example''" "''0xabc''" env0 world0]
  have 2: "\<exists>p. emit env0 (messageSigned Null ''https://app.example'' ''0xabc'') world0 =
      Inr (world0\<lparr>sent := sent world0 @ [(''signed_message'', p)]\<rparr>)"
    by blast
  from f g handleSign_internal_origin [of "messageSigned Null ''not a url'' ''0xabc''"
      Null "''not a url''" "''0xabc''" env0 world0]
  have 3: "isl (emit env0 (messageSigned Null ''not a url'' ''0xabc'') world0)"
    by blast
  from 1 2 3 show ?thesis by blast
qed

subsection \<open>Context and dapp domain\<close>

text \<open>
  Claim C3. For a \<open>transactionSent\<close> event, and for a signing event that is not
  suppressed, the record the handler sends has \<open>context = "Extension"\<close> and
  \<open>dapp_domain = null\<close> when the origin of the initiator URL is the origin of the
  running application, and \<open>context = "External Dapp"\<close> and \<open>dapp_domain\<close> the
  initiator's origin otherwise. The handler is taken to return, and the object spread
  last into the transaction literal to carry neither key.
\<close>

theorem context_and_dapp_domain:
  assumes ini: "initiator_of ev = Some initiator" and ns: "\<not> suppressed e ev"
    and ok: "emit e ev w = Inr w'"
    and sp1: "map_of (spread_part e ev) ''context'' = None"
    and sp2: "map_of (spread_part e ev) ''dapp_domain'' = None"
  shows "\<exists>u p. URL e initiator = Some u \<and> sent w' = sent w @ [(request_name_of ev, p)] \<and>
           field_of ''context'' p =
             Some (if location_origin e = origin u then Str ''Extension'' else Str ''External Dapp'') \<and>
           field_of ''dapp_domain'' p =
             Some (if location_origin e = origin u then Null else Str (origin u))"
proof (cases ev)
  case (transactionSent tx initiator' feeValueCommon addressAction quote)
  with sp1 sp2 have m1: "map_of (addressActionToAnalytics e addressAction quote) ''context'' = None"
    and m2: "map_of (addressActionToAnalytics e addressAction quote) ''dapp_domain'' = None"
    by simp_all
  from object_append_miss [OF m1] object_append_miss [OF m2] transactionSent ok ini
  show ?thesis
    by (auto simp: on_transactionSent_def sendToMetabase_def field_of_def Let_def
        simp del: append.simps split: sum.splits option.splits)
next
  case (typedDataSigned typedData initiator' address)
  with ok ini ns show ?thesis
    by (auto simp: handleSign_def sendToMetabase_def field_of_def map_of_object
        split: sum.splits option.splits)
next
  case (messageSigned message initiator' address)
  with ok ini ns show ?thesis
    by (auto simp: handleSign_def sendToMetabase_def field_of_def map_of_object
        split: sum.splits option.splits)
qed (use ini in simp_all)

theorem context_and_dapp_domain_witness:
  "(\<exists>p. sent (projr (emit env0 (transactionSent tx0 ''https://app.example/swap'' Null Null Null) world0)) =
      sent world0 @ [(''signed_transaction'', p)] \<and>
      field_of ''context'' p = Some (Str ''External Dapp'') \<and>
      field_of ''dapp_domain'' p = Some (Str ''https://app.example'')) \<and>
   (\<exists>p. sent (projr (emit env0 (messageSigned Null ''chrome-extension://wallet/popup.html'' ''0xabc'') world0)) =
      sent world0 @ [(''signed_message'', p)] \<and>
      field_of ''context'' p = Some (Str ''Extension'') \<and>
      field_of ''dapp_domain'' p = Some Null)"
proof -
  let ?ev1 = "transactionSent tx0 ''https://app.example/swap'' Null Null Null"
  let ?ev2 = "messageSigned Null ''chrome-extension://wallet/popup.html'' ''0xabc''"
  obtain w1 where ok1: "emit env0 ?ev1 world0 = Inr w1"
    by (simp add: env0_simps handler_defs)
  obtain w2 where ok2: "emit env0 ?ev2 world0 = Inr w2"
    by (simp add: env0_simps handler_defs)
  have u1: "URL env0 ''https://app.example/swap'' =
      Some \<lparr>origin = ''https://app.example'', pathname = ''/swap''\<rparr>"
    and u2: "URL env0 ''chrome-extension://wallet/popup.html'' =
      Some \<lparr>origin = ''chrome-extension://wallet'', pathname = ''/popup.html''\<rparr>"
    and lo: "location_origin env0 = ''chrome-extension://wallet''"
    by (simp_all add: env0_simps)
  have "initiator_of ?ev1 = Some ''https://app.example/swap''" "\<not> suppressed env0 ?ev1"
    "map_of (spread_part env0 ?ev1) ''context'' = None"
    "map_of (spread_part env0 ?ev1) ''dapp_domain'' = None"
    by (simp_all add: env0_def)
  from context_and_dapp_domain [OF this(1,2) ok1 this(3,4)] u1 lo ok1
  have 1: "\<exists>p. sent (projr (emit env0 ?ev1 world0)) = sent world0 @ [(''signed_transaction'', p)] \<and>
      field_of ''context'' p = Some (Str ''External Dapp'') \<and>
      field_of ''dapp_domain'' p = Some (Str ''https://app.example'')"
    by auto
  have "initiator_of ?ev2 = Some ''chrome-extension://wallet/popup.html''" "\<not> suppressed env0 ?ev2"
    "map_of (spread_part env0 ?ev2) ''context'' = None"
    "map_of (spread_part env0 ?ev2) ''dapp_domain'' = None"
    by (simp_all add: env0_def)
  from context_and_dapp_domain [OF this(1,2) ok2 this(3,4)] u2 lo ok2
  have 2: "\<exists>p. sent (projr (emit env0 ?ev2 world0)) = sent world0 @ [(''signed_message'', p)] \<and>
      field_of ''context'' p = Some (Str ''Extension'') \<and>
      field_of ''dapp_domain'' p = Some Null"
    by auto
  from 1 2 show ?thesis by blast
qed

subsection \<open>Screen name of a transaction\<close>

text \<open>
  Claim C4. The \<open>signed_transaction\<close> record of a \<open>transactionSent\<close> event has
  \<open>screen_name = "Transaction Request"\<close> when the origin of the initiator URL is the
  whole initiator string, and the URL's path otherwise; so, the path not being that
  very text, the screen name is \<open>"Transaction Request"\<close> exactly when origin and
  initiator coincide. The handler is taken to return, and the object spread last into
  the literal to carry no \<open>screen_name\<close>.
\<close>

theorem transaction_screen_name:
  assumes ok: "emit e (transactionSent tx initiator feeValueCommon addressAction quote) w = Inr w'"
    and sp: "map_of (addressActionToAnalytics e addressAction quote) ''screen_name'' = None"
  shows "\<exists>u p. URL e initiator = Some u \<and> sent w' = sent w @ [(''signed_transaction'', p)] \<and>
           field_of ''screen_name'' p =
             Some (Str (if origin u = initiator then ''Transaction Request'' else pathname u)) \<and>
           (pathname u \<noteq> ''Transaction Request'' \<longrightarrow>
              (field_of ''screen_name'' p = Some (Str ''Transaction Request'') \<longleftrightarrow>
               origin u = initiator))"
  using object_append_miss [OF sp] ok
  by (auto simp: on_transactionSent_def sendToMetabase_def field_of_def Let_def
      simp del: append.simps split: sum.splits option.splits)

theorem transaction_screen_name_witness:
  "(\<exists>p. sent (projr (emit env0 (transactionSent tx0 ''https://app.example/swap'' Null Null Null) world0)) =
      sent world0 @ [(''signed_transaction'', p)] \<and> field_of ''screen_name'' p = Some (Str ''/swap'')) \<and>
   (\<exists>p. sent (projr (emit env0 (transactionSent tx0 ''https://app.example'' Null Null Null) world0)) =
      sent world0 @ [(''signed_transaction'', p)] \<and>
      field_of ''screen_name'' p = Some (Str ''Transaction Request''))"
proof -
  let ?ev1 = "transactionSent tx0 ''https://app.example/swap'' Null Null Null"
  let ?ev2 = "transactionSent tx0 ''https://app.example'' Null Null Null"
  obtain w1 where ok1: "emit env0 ?ev1 world0 = Inr w1"
    by (simp add: env0_simps handler_defs)
  obtain w2 where ok2: "emit env0 ?ev2 world0 = Inr w2"
    by (simp add: env0_simps handler_defs)
  have sp: "map_of (addressActionToAnalytics env0 Null Null) ''screen_name'' = None"
    by (simp add: env0_def)
  have u1: "URL env0 ''https://app.example/swap'' =
      Some \<lparr>origin = ''https://app.example'', pathname = ''/swap''\<rparr>"
    and u2: "URL env0 ''https://app.example'' =
      Some \<lparr>origin = ''https://app.example'', pathname = ''/''\<rparr>"
    by (simp_all add: env0_simps)
  from transaction_screen_name [OF ok1 sp] u1 ok1
  have 1: "\<exists>p. sent (projr (emit env0 ?ev1 world0)) = sent world0 @ [(''signed_transaction'', p)] \<and>
      field_of ''screen_name'' p = Some (Str ''/swap'')"
    by auto
  from transaction_screen_name [OF ok2 sp] u2 ok2
  have 2: "\<exists>p. sent (projr (emit env0 ?ev2 world0)) = sent world0 @ [(''signed_transaction'', p)] \<and>
      field_of ''screen_name'' p = Some (Str ''Transaction Request'')"
    by auto
  from 1 2 show ?thesis by blast
qed

subsection \<open>When a translator throws\<close>

text \<open>
  Claim C5, as the code has it. No handler catches anything, so a handler throws
  whenever one of its steps does, and then sends nothing: \<open>new URL(initiator)\<close> on an
  initiator that is not a URL (\<open>transactionSent\<close>, and the signing events from other
  than the internal origin), \<open>await networksStore.load()\<close> rejecting,
  \<open>ethers.utils.hexValue(transaction.chainId)\<close> on a chain id it cannot render,
  \<open>transaction.gasLimit.toString()\<close> on a transaction without a gas limit, the first
  property read of \<open>network\<close> on an empty list of networks, and the wallet lookup in
  the handlers that ask for a provider. When none of these steps throws, and the
  remaining collaborators return as the model takes them to, the handler returns, having
  sent its record, deferred its callback or, by design, done nothing. For the \<open>async\<close>
  handler of \<open>transactionSent\<close> the throw is the rejection of its promise.
\<close>

theorem translator_aborts_iff:
  "(isl (emit e ev w) \<longleftrightarrow> aborts e ev) \<and>
   (aborts e ev \<longrightarrow> records_of e ev w = [])"
proof -
  have "isl (emit e ev w) \<longleftrightarrow> aborts e ev"
  proof (cases ev)
  case (dappConnection origin' address)
  then show ?thesis
    by (simp add: on_dappConnection_def getProvider_def queryWalletProvider_def
        split: sum.splits)
next
  case (screenView address pathname' previous screenSize)
  then show ?thesis
    by (simp add: on_screenView_def getProvider_def queryWalletProvider_def
        split: sum.splits option.splits)
next
  case (daylightAction payload)
  then show ?thesis
    by (simp add: on_daylightAction_def Let_def)
next
  case (transactionSent tx initiator feeValueCommon addressAction quote)
  then show ?thesis
    by (simp add: on_transactionSent_def getProvider_def queryWalletProvider_def Let_def
        split: sum.splits option.splits)
next
  case (typedDataSigned typedData initiator address)
  then show ?thesis
    by (simp add: handleSign_def getProvider_def queryWalletProvider_def
        split: sum.splits option.splits)
next
  case (messageSigned message initiator address)
  then show ?thesis
    by (simp add: handleSign_def getProvider_def queryWalletProvider_def
        split: sum.splits option.splits)
next
  case (addEthereumChain values' origin')
  then show ?thesis
    by (simp add: on_addEthereumChain_def split: list.splits)
next
  case (globalPreferencesChange state prevState)
  then show ?thesis
    by (simp add: on_globalPreferencesChange_def)
  qed
  moreover have "isl (emit e ev w) \<Longrightarrow> records_of e ev w = []"
    by (cases "emit e ev w") (simp_all add: records_of_def)
  ultimately show ?thesis
    by blast
qed

text \<open>
  A \<open>messageSigned\<close> event whose initiator is not a URL, and a transaction without a
  gas limit: both handlers end in a \<open>TypeError\<close>. A transaction whose chain id is
  negative or missing: the handler ends in the error of \<open>hexValue\<close>.
\<close>

theorem translator_aborts_counterexample:
  "emit env0 (messageSigned Null ''not a url'' ''0xabc'') world0 = Inl (TypeError ''Invalid URL'') \<and>
   emit env0 (transactionSent (tx0\<lparr>gasLimit := None\<rparr>) ''https://app.example/swap'' Null Null Null)
     world0 = Inl (TypeError ''Cannot read properties of undefined'') \<and>
   emit env0 (transactionSent (tx0\<lparr>chainId := Num (- 1)\<rparr>) ''https://app.example/swap'' Null Null Null)
     world0 = Inl (Thrown ''invalid hexlify value'') \<and>
   emit env0 (transactionSent (tx0\<lparr>chainId := Undefined\<rparr>) ''https://app.example/swap'' Null Null Null)
     world0 = Inl (Thrown ''invalid hexlify value'')"
  by (simp add: env0_simps handler_defs)

theorem translator_aborts_iff_witness:
  "isl (emit env0 (transactionSent tx0 ''not a url'' Null Null Null) world0) \<and>
   isl (emit env0 (transactionSent (tx0\<lparr>chainId := Num (- 1)\<rparr>) ''https://app.example/swap''
          Null Null Null) world0) \<and>
   records_of env0 (transactionSent (tx0\<lparr>chainId := Num (- 1)\<rparr>) ''https://app.example/swap''
     Null Null Null) world0 = [] \<and>
   \<not> isl (emit env0 (transactionSent tx0 ''https://app.example/swap'' Null Null Null) world0)"
  using translator_aborts_iff [of env0 "transactionSent tx0 ''not a url'' Null Null Null" world0]
    translator_aborts_iff [of env0 "transactionSent (tx0\<lparr>chainId := Num (- 1)\<rparr>)
      ''https://app.example/swap'' Null Null Null" world0]
    translator_aborts_iff [of env0 "transactionSent tx0 ''https://app.example/swap'' Null Null Null" world0]
  by (simp add: env0_simps)

subsection \<open>The wallet provider\<close>

text \<open>
  Claim C6, as the code has it. In a handler that asks for the provider of an address
  (\<open>dappConnection\<close>, \<open>screenView\<close> with an address, \<open>transactionSent\<close>, a signing
  event that is not suppressed) the handler has no fallback of its own. When the wallet
  lookup returns a group, \<open>null\<close> included, and the handler returns, the record carries
  as \<open>wallet_provider\<close> what \<open>getProviderForMetabase\<close> makes of
  \<open>getProviderNameFromGroup\<close> of that group, which is \<open>null\<close> only if these two say
  so. When the lookup throws, the handler throws and no record is sent. The object
  spread last into the transaction literal is taken to carry no \<open>wallet_provider\<close>.
\<close>

theorem provider_lookup:
  assumes la: "lookup_address e ev = Some a"
    and sp: "map_of (spread_part e ev) ''wallet_provider'' = None"
  shows "(\<forall>g w'. getWalletGroupByAddressSync e a = Inr g \<longrightarrow> emit e ev w = Inr w' \<longrightarrow>
            (\<exists>p. sent w' = sent w @ [(request_name_of ev, p)] \<and>
               field_of ''wallet_provider'' p =
                 Some (getProviderForMetabase e (getProviderNameFromGroup e g)))) \<and>
         (isl (getWalletGroupByAddressSync e a) \<longrightarrow> isl (emit e ev w))"
proof (cases ev)
  case (dappConnection origin' address)
  with la show ?thesis
    by (auto simp: on_dappConnection_def getProvider_def queryWalletProvider_def
        sendToMetabase_def field_of_def map_of_object split: sum.splits)
next
  case (screenView address pathname' previous screenSize)
  with la show ?thesis
    by (auto simp: on_screenView_def getProvider_def queryWalletProvider_def
        sendToMetabase_def field_of_def map_of_object
        split: sum.splits option.splits if_splits)
next
  case (transactionSent tx initiator feeValueCommon addressAction quote)
  with sp have "map_of (addressActionToAnalytics e addressAction quote) ''wallet_provider'' = None"
    by simp
  from object_append_miss [OF this] transactionSent la show ?thesis
    by (auto simp: on_transactionSent_def getProvider_def queryWalletProvider_def
        sendToMetabase_def field_of_def Let_def
        simp del: append.simps split: sum.splits option.splits)
next
  case (typedDataSigned typedData initiator address)
  with la show ?thesis
    by (auto simp: handleSign_def getProvider_def queryWalletProvider_def
        sendToMetabase_def field_of_def map_of_object
        split: sum.splits option.splits if_splits)
next
  case (messageSigned message initiator address)
  with la show ?thesis
    by (auto simp: handleSign_def getProvider_def queryWalletProvider_def
        sendToMetabase_def field_of_def map_of_object
        split: sum.splits option.splits if_splits)
qed (use la in simp_all)

text \<open>
  A wallet whose group lookup throws: the \<open>dappConnection\<close> handler throws with it,
  and no record is sent.
\<close>

theorem provider_lookup_counterexample:
  "getWalletGroupByAddressSync env_unloaded ''0xabc'' = Inl (Thrown ''wallet state not loaded'') \<and>
   emit env_unloaded (dappConnection ''https://dapp.example'' ''0xabc'') world0 =
     Inl (Thrown ''wallet state not loaded'') \<and>
   records_of env_unloaded (dappConnection ''https://dapp.example'' ''0xabc'') world0 = []"
  by (simp add: records_of_def env0_simps handler_defs)

theorem provider_lookup_witness:
  "(\<exists>p. sent (projr (emit env0 (dappConnection ''https://dapp.example'' ''0xdef'') world0)) =
      sent world0 @ [(''dapp_connection'', p)] \<and> field_of ''wallet_provider'' p = Some Null) \<and>
   isl (emit env_unloaded (dappConnection ''https://dapp.example'' ''0xdef'') world0)"
proof -
  let ?ev = "dappConnection ''https://dapp.example'' ''0xdef''"
  obtain w1 where ok: "emit env0 ?ev world0 = Inr w1"
    by (simp add: env0_simps handler_defs)
  have g: "getWalletGroupByAddressSync env0 ''0xdef'' = Inr Null"
    and pr: "getProviderForMetabase env0 (getProviderNameFromGroup env0 Null) = Null"
    and th: "isl (getWalletGroupByAddressSync env_unloaded ''0xdef'')"
    by (simp_all add: env0_simps)
  have la: "lookup_address env0 ?ev = Some ''0xdef''"
      "map_of (spread_part env0 ?ev) ''wallet_provider'' = None"
    and la': "lookup_address env_unloaded ?ev = Some ''0xdef''"
      "map_of (spread_part env_unloaded ?ev) ''wallet_provider'' = None"
    by simp_all
  from provider_lookup [OF la, of world0] g ok pr
  have 1: "\<exists>p. sent (projr (emit env0 ?ev world0)) = sent world0 @ [(''dapp_connection'', p)] \<and>
      field_of ''wallet_provider'' p = Some Null"
    by auto
  from provider_lookup [OF la', of world0] th
  have 2: "isl (emit env_unloaded ?ev world0)"
    by blast
  from 1 2 show ?thesis by blast
qed

subsection \<open>Preference changes\<close>

text \<open>
  Claim C7. Let the diff of the two preference snapshots be the keys \<open>newlyEnabled\<close>
  and \<open>newlyDisabled\<close>. The handler of \<open>globalPreferencesChange\<close> sends nothing
  itself; once its deferred callback has run there are exactly
  \<open>|newlyEnabled| + |newlyDisabled|\<close> records, all named \<open>metamask_mode\<close>, one per
  key and in the order of the keys: those of the newly enabled keys have
  \<open>enabled = true\<close>, those of the newly disabled keys \<open>enabled = false\<close>, and each has
  its key as \<open>dapp_domain\<close>.
\<close>

theorem metamask_mode_records:
  assumes ch: "getWalletNameFlagsChange e state prevState = (newlyEnabled, newlyDisabled)"
    and idle: "idle w = []"
  shows "sent (projr (emit e (globalPreferencesChange state prevState) w)) = sent w \<and>
         length (records_of e (globalPreferencesChange state prevState) w) =
           length newlyEnabled + length newlyDisabled \<and>
         map fst (records_of e (globalPreferencesChange state prevState) w) =
           replicate (length newlyEnabled + length newlyDisabled) ''metamask_mode'' \<and>
         map (field_of ''enabled'' \<circ> snd) (records_of e (globalPreferencesChange state prevState) w) =
           replicate (length newlyEnabled) (Some (Bool True)) @
           replicate (length newlyDisabled) (Some (Bool False)) \<and>
         map (field_of ''dapp_domain'' \<circ> snd) (records_of e (globalPreferencesChange state prevState) w) =
           map (Some \<circ> Str) (newlyEnabled @ newlyDisabled)"
  unfolding records_of_globalPreferencesChange [OF idle] ch
  by (simp add: on_globalPreferencesChange_def onIdle_def field_of_def createParams_def
      map_of_object comp_def replicate_add map_replicate_const)

theorem metamask_mode_records_witness:
  "length (records_of env0 (globalPreferencesChange Null Null) world0) = 3 \<and>
   map (field_of ''enabled'' \<circ> snd) (records_of env0 (globalPreferencesChange Null Null) world0) =
     [Some (Bool True), Some (Bool False), Some (Bool False)] \<and>
   map (field_of ''dapp_domain'' \<circ> snd) (records_of env0 (globalPreferencesChange Null Null) world0) =
     [Some (Str ''https://a.example''), Some (Str ''https://b.example''),
      Some (Str ''https://c.example'')]"
proof -
  have ch: "getWalletNameFlagsChange env0 Null Null =
      ([''https://a.example''], [''https://b.example'', ''https://c.example''])"
    by (simp add: env0_def)
  have idle: "idle world0 = []"
    by (simp add: world0_def)
  from metamask_mode_records [OF ch idle] show ?thesis
    by (simp add: numeral_eq_Suc)
qed

subsection \<open>Records without identity\<close>

text \<open>
  Claim C8. The handlers of \<open>screenView\<close> and \<open>dappConnection\<close> call the base
  builder and never read the account's user: whatever the current user is, the outcome
  (the same records, or the same error) is the same, and the literal handed to the
  builder has no \<open>userId\<close> and no \<open>user_id\<close> property.
\<close>

theorem no_user_id_in_screen_view_and_dapp_connection:
  assumes ev: "ev = dappConnection origin' address \<or>
               ev = screenView address' pathname' previous screenSize"
  shows "map_sum id sent (emit e ev (w\<lparr>user := u1\<rparr>)) =
         map_sum id sent (emit e ev (w\<lparr>user := u2\<rparr>)) \<and>
         (\<forall>w'. emit e ev w = Inr w' \<longrightarrow>
            (\<exists>p. sent w' = sent w @ [(request_name_of ev, p)] \<and>
               field_of ''userId'' p = None \<and> field_of ''user_id'' p = None))"
  using ev
  by (auto simp: on_dappConnection_def on_screenView_def sendToMetabase_def field_of_def
      map_of_object split: sum.splits)

theorem no_user_id_in_screen_view_and_dapp_connection_witness:
  "map_sum id sent (emit env0 (screenView (Some ''0xabc'') ''/overview'' Null (Str ''400x600''))
      (world0\<lparr>user := Some (User ''user-1'')\<rparr>)) =
   map_sum id sent (emit env0 (screenView (Some ''0xabc'') ''/overview'' Null (Str ''400x600''))
      (world0\<lparr>user := None\<rparr>)) \<and>
   (\<exists>p. sent (projr (emit env0 (screenView (Some ''0xabc'') ''/overview'' Null (Str ''400x600'')) world0)) =
      sent world0 @ [(''screen_view'', p)] \<and> field_of ''userId'' p = None)"
proof -
  let ?ev = "screenView (Some ''0xabc'') ''/overview'' Null (Str ''400x600'')"
  obtain w1 where ok: "emit env0 ?ev world0 = Inr w1"
    by (simp add: env0_simps handler_defs)
  have ev: "?ev = dappConnection [] [] \<or>
      ?ev = screenView (Some ''0xabc'') ''/overview'' Null (Str ''400x600'')"
    by simp
  from no_user_id_in_screen_view_and_dapp_connection
      [OF ev, where e = env0 and w = world0 and ?u1.0 = "Some (User ''user-1'')" and ?u2.0 = None] ok
  show ?thesis by auto
qed

subsection \<open>The type of a signed message\<close>



subsection \<open>Identity at idle time\<close>

text \<open>
  Claim C10. The records of a \<open>globalPreferencesChange\<close> event are built by
  \<open>createParams\<close>, which reads the account's user when it is called, and it is called
  inside the deferred callback. So the handler sends nothing when the event fires, and
  whoever the user was then, every record sent once the callback runs carries as
  \<open>userId\<close> the id of the user at that moment (\<open>undefined\<close> when there is none).
\<close>

theorem metamask_mode_user_id:
  assumes ok: "emit e (globalPreferencesChange state prevState) w = Inr w1"
    and idle: "idle w = []"
  shows "sent w1 = sent w \<and>
         (\<forall>r \<in> set (drop (length (sent w)) (sent (run_idle e (w1\<lparr>user := u\<rparr>)))).
            field_of ''userId'' (snd r) =
              Some (case u of None \<Rightarrow> Undefined | Some usr \<Rightarrow> Str (id_user usr)))"
proof -
  let ?w = "w\<lparr>user := u\<rparr>"
  have w1: "w1\<lparr>user := u\<rparr> = projr (emit e (globalPreferencesChange state prevState) ?w)"
    using ok by (auto simp: on_globalPreferencesChange_def onIdle_def)
  have idle': "idle ?w = []"
    using idle by simp
  have "drop (length (sent w)) (sent (run_idle e (w1\<lparr>user := u\<rparr>))) =
        records_of e (globalPreferencesChange state prevState) ?w"
    unfolding w1 by (simp add: records_of_def on_globalPreferencesChange_def)
  then show ?thesis
    unfolding records_of_globalPreferencesChange [OF idle']
    using ok
    by (auto simp: on_globalPreferencesChange_def onIdle_def field_of_def createParams_def
        map_of_object getUserId_def split: option.splits)
qed

theorem metamask_mode_user_id_witness:
  "user world0 = Some (User ''user-1'') \<and>
   map (field_of ''userId'' \<circ> snd)
     (sent (run_idle env0
        ((projr (emit env0 (globalPreferencesChange Null Null) world0))\<lparr>user := Some (User ''user-2'')\<rparr>))) =
   [Some (Str ''user-2''), Some (Str ''user-2''), Some (Str ''user-2'')]"
proof -
  obtain w1 where ok: "emit env0 (globalPreferencesChange Null Null) world0 = Inr w1"
    by (simp add: on_globalPreferencesChange_def)
  have idle: "idle world0 = []" and s: "sent world0 = []"
    and u: "user world0 = Some (User ''user-1'')"
    by (simp_all add: world0_def)
  have len: "length (sent (run_idle env0 (w1\<lparr>user := Some (User ''user-2'')\<rparr>))) = 3"
    using ok
    by (auto simp: on_globalPreferencesChange_def onIdle_def run_idle_def env0_simps
        send_metamask_mode_def sendToMetabase_def)
  from metamask_mode_user_id [OF ok idle, of "Some (User ''user-2'')"] s
  have "\<forall>r \<in> set (sent (run_idle env0 (w1\<lparr>user := Some (User ''user-2'')\<rparr>))).
      field_of ''userId'' (snd r) = Some (Str ''user-2'')"
    by simp
  then have "map (field_of ''userId'' \<circ> snd) (sent (run_idle env0 (w1\<lparr>user := Some (User ''user-2'')\<rparr>))) =
      replicate (length (sent (run_idle env0 (w1\<lparr>user := Some (User ''user-2'')\<rparr>)))) (Some (Str ''user-2''))"
    by (simp add: map_replicate_const [symmetric] del: map_replicate_const cong: map_cong)
  with len ok u show ?thesis
    by (simp add: numeral_eq_Suc)
qed

end
